theory Spec2Isabelle
  imports Complex_Main "HOL-Library.Sublist"
begin

section \<open>The catalog client of argo-probe-onboarding (modules/catalog.py)\<close>

text \<open>
  The module holds one class, \<^verbatim>\<open>CatalogAPI\<close>. Its constructor fetches a JSON document
  with \<^verbatim>\<open>requests.get\<close>; three methods then query the stored document. The embedding
  keeps the Python values the code handles (the objects \<^verbatim>\<open>response.json()\<close> can build),
  turns every \<^verbatim>\<open>raise\<close> into the left summand of a sum type, and takes what lies outside
  the module (the network, the clock, \<^verbatim>\<open>datetime.strptime\<close>) as a record of functions.
\<close>

subsection \<open>Python values\<close>

text \<open>
  A Python float: a finite value, an infinity or NaN (\<^verbatim>\<open>json.loads\<close> accepts the
  literals \<^verbatim>\<open>Infinity\<close>, \<^verbatim>\<open>-Infinity\<close> and \<^verbatim>\<open>NaN\<close>). Both zeros are \<open>FloatVal 0\<close>.
\<close>

datatype pyfloat = FloatVal rat | PosInf | NegInf | NaN

text \<open>
  What \<^verbatim>\<open>response.json()\<close> returns: \<^verbatim>\<open>None\<close>, a bool, an int, a float, a str, a list
  or a dict with str keys. A dict is the list of its items; \<open>map_of\<close> is its lookup.
\<close>

datatype json =
    JNone
  | JBool bool
  | JInt int
  | JFloat pyfloat
  | JStr string
  | JList "json list"
  | JDict "(string \<times> json) list"

text \<open>The truth value Python gives an object (\<^verbatim>\<open>bool(v)\<close>).\<close>

fun truthy :: "json \<Rightarrow> bool" where
  "truthy JNone = False"
| "truthy (JBool b) = b"
| "truthy (JInt n) = (n \<noteq> 0)"
| "truthy (JFloat f) = (f \<noteq> FloatVal 0)"
| "truthy (JStr s) = (s \<noteq> [])"
| "truthy (JList xs) = (xs \<noteq> [])"
| "truthy (JDict kvs) = (kvs \<noteq> [])"

subsection \<open>Exceptions\<close>

text \<open>
  The five classes of \<^verbatim>\<open>requests.exceptions\<close> that the two \<^verbatim>\<open>except\<close> clauses list, each
  with the text \<^verbatim>\<open>str(e)\<close> gives. \<open>RequestException\<close> is the base class of the other
  four and stands for every further subclass as well.
\<close>

datatype requests_exception =
    HTTPError string
  | ConnectionError string
  | RequestException string
  | Timeout string
  | TooManyRedirects string

fun str_exc :: "requests_exception \<Rightarrow> string" where
  "str_exc (HTTPError m) = m"
| "str_exc (ConnectionError m) = m"
| "str_exc (RequestException m) = m"
| "str_exc (Timeout m) = m"
| "str_exc (TooManyRedirects m) = m"

text \<open>
  \<^verbatim>\<open>CriticalException\<close> is imported from \<^verbatim>\<open>argo_probe_onboarding.exceptions\<close>; the module
  builds it from the caught exception object (line 40) or from a message (line 60).
\<close>

datatype critical_arg = Wrapped requests_exception | Message string

text \<open>
  What a call can raise: the two above, and the built-in \<^verbatim>\<open>KeyError\<close> (with the key),
  \<^verbatim>\<open>TypeError\<close>, \<^verbatim>\<open>ValueError\<close> and \<^verbatim>\<open>re.error\<close> (with their messages).
\<close>

datatype exn =
    CriticalException critical_arg
  | Requests requests_exception
  | KeyError string
  | TypeError
  | ValueError string
  | ReError string

subsection \<open>The world outside the module\<close>

text \<open>
  A \<^verbatim>\<open>requests.Response\<close>: the status line, the final URL, and what \<^verbatim>\<open>.json()\<close> gives
  (the decoded body, or the exception the decoder raises).
\<close>

record response =
  status_code :: int
  reason :: string
  resp_url :: string
  json_body :: "exn + json"

record datetime =
  year :: int
  month :: int
  day :: int
  hour :: int
  minute :: int
  second :: int
  microsecond :: int

text \<open>
  \<open>requests_get u t\<close> is \<^verbatim>\<open>requests.get(u, timeout=t)\<close> (\<open>None\<close>: no timeout given): a
  response or a raised exception. \<open>strptime s f\<close> is \<^verbatim>\<open>datetime.datetime.strptime(s, f)\<close>
  on two strings: a datetime, or the exception it raises (\<^verbatim>\<open>ValueError\<close> for a string
  that does not match the format or for a bad directive, \<^verbatim>\<open>re.error\<close> for a format that
  repeats a directive).
  \<open>clock\<close> is \<^verbatim>\<open>datetime.datetime.now()\<close>. \<open>str_of_object\<close> is \<^verbatim>\<open>str(v)\<close> for an object
  that is not a str.
\<close>

record env =
  requests_get :: "json \<Rightarrow> int option \<Rightarrow> exn + response"
  strptime :: "string \<Rightarrow> string \<Rightarrow> exn + datetime"
  clock :: datetime
  str_of_object :: "json \<Rightarrow> string"

subsection \<open>Library operations the module calls\<close>

text \<open>Decimal text of an int, as an f-string prints it.\<close>

fun str_nat :: "nat \<Rightarrow> string" where
  "str_nat n =
     (if n < 10 then [''0123456789'' ! n]
      else str_nat (n div 10) @ [''0123456789'' ! (n mod 10)])"

definition str_int :: "int \<Rightarrow> string" where
  "str_int i = (if i < 0 then CHR ''-'' # str_nat (nat (- i)) else str_nat (nat i))"

text \<open>
  \<^verbatim>\<open>Response.raise_for_status()\<close>: an \<^verbatim>\<open>HTTPError\<close> for a status from 400 to 599,
  nothing otherwise.
\<close>

definition raise_for_status :: "response \<Rightarrow> exn + unit" where
  "raise_for_status r =
     (if 400 \<le> status_code r \<and> status_code r < 500 then
        Inl (Requests (HTTPError
          (str_int (status_code r) @ '' Client Error: '' @ reason r @ '' for url: '' @ resp_url r)))
      else if 500 \<le> status_code r \<and> status_code r < 600 then
        Inl (Requests (HTTPError
          (str_int (status_code r) @ '' Server Error: '' @ reason r @ '' for url: '' @ resp_url r)))
      else Inr ())"

text \<open>\<^verbatim>\<open>Response.ok\<close>: whether \<^verbatim>\<open>raise_for_status()\<close> passes.\<close>

definition ok :: "response \<Rightarrow> bool" where
  "ok r = (case raise_for_status r of Inl (Requests (HTTPError m)) \<Rightarrow> False | _ \<Rightarrow> True)"

text \<open>\<^verbatim>\<open>s.endswith(suf)\<close>.\<close>

definition endswith :: "string \<Rightarrow> string \<Rightarrow> bool" where
  "endswith s suf = suffix suf s"

text \<open>
  \<^verbatim>\<open>key in obj\<close> for a str \<open>key\<close>: a key of a dict, an element of a list, a substring
  of a str; any other object is not iterable.
\<close>

fun py_contains :: "json \<Rightarrow> string \<Rightarrow> exn + bool" where
  "py_contains (JDict kvs) key = Inr (map_of kvs key \<noteq> None)"
| "py_contains (JList xs) key = Inr (JStr key \<in> set xs)"
| "py_contains (JStr s) key = Inr (sublist key s)"
| "py_contains v key = Inl TypeError"

text \<open>
  \<^verbatim>\<open>obj[key]\<close> for a str \<open>key\<close>: the value of a dict or \<^verbatim>\<open>KeyError\<close>; a list and a str
  take no str index, and the other objects take none.
\<close>

fun py_getitem :: "json \<Rightarrow> string \<Rightarrow> exn + json" where
  "py_getitem (JDict kvs) key =
     (case map_of kvs key of None \<Rightarrow> Inl (KeyError key) | Some v \<Rightarrow> Inr v)"
| "py_getitem v key = Inl TypeError"

text \<open>An object inside an f-string: a str as it is, anything else through \<^verbatim>\<open>str\<close>.\<close>

definition py_format :: "env \<Rightarrow> json \<Rightarrow> string" where
  "py_format w v = (case v of JStr s \<Rightarrow> s | _ \<Rightarrow> str_of_object w v)"

subsection \<open>The class\<close>

record CatalogAPI =
  url :: string
  catalog_id :: string
  timeout :: int
  data :: json

text \<open>\<^verbatim>\<open>get_today\<close> (line 7).\<close>

definition get_today :: "env \<Rightarrow> datetime" where
  "get_today w = clock w"

text \<open>The URL \<^verbatim>\<open>_get_data\<close> requests (lines 19 to 23).\<close>

definition fetch_url :: "string \<Rightarrow> string \<Rightarrow> string" where
  "fetch_url u cid = (if endswith u ''/'' then u @ cid else u @ ''/'' @ cid)"

text \<open>
  The \<^verbatim>\<open>try\<close> block of \<^verbatim>\<open>_get_data\<close> (lines 26 to 31). A response that passes
  \<^verbatim>\<open>raise_for_status\<close> and is not \<^verbatim>\<open>ok\<close> falls off the end of the method: \<^verbatim>\<open>None\<close>.
\<close>

definition get_data_try :: "env \<Rightarrow> string \<Rightarrow> string \<Rightarrow> int \<Rightarrow> exn + json" where
  "get_data_try w u cid t =
     (case requests_get w (JStr (fetch_url u cid)) (Some t) of
        Inl e \<Rightarrow> Inl e
      | Inr resp \<Rightarrow>
          (case raise_for_status resp of
             Inl e \<Rightarrow> Inl e
           | Inr _ \<Rightarrow> if ok resp then json_body resp else Inr JNone))"

text \<open>
  \<^verbatim>\<open>_get_data\<close> (lines 18 to 40), on the attributes \<^verbatim>\<open>__init__\<close> has set when it calls
  it. The \<^verbatim>\<open>except\<close> clause catches the classes of \<open>requests_exception\<close> and nothing
  else.
\<close>

definition get_data :: "env \<Rightarrow> string \<Rightarrow> string \<Rightarrow> int \<Rightarrow> exn + json" where
  "get_data w u cid t =
     (case get_data_try w u cid t of
        Inl (Requests e) \<Rightarrow> Inl (CriticalException (Wrapped e))
      | Inl e \<Rightarrow> Inl e
      | Inr v \<Rightarrow> Inr v)"

text \<open>\<^verbatim>\<open>__init__\<close> (lines 12 to 16): the object, or the exception that ends construction.\<close>

definition init :: "env \<Rightarrow> string \<Rightarrow> string \<Rightarrow> int \<Rightarrow> exn + CatalogAPI" where
  "init w u cid t =
     (case get_data w u cid t of
        Inl e \<Rightarrow> Inl e
      | Inr d \<Rightarrow> Inr \<lparr>url = u, catalog_id = cid, timeout = t, data = d\<rparr>)"

text \<open>
  \<^verbatim>\<open>check_key_exists\<close> (lines 42 to 43). Python's \<^verbatim>\<open>a and b\<close> is \<open>a\<close> when \<open>a\<close> is
  false and \<open>b\<close> otherwise.
\<close>

definition check_key_exists :: "CatalogAPI \<Rightarrow> string \<Rightarrow> exn + json" where
  "check_key_exists c key =
     (case py_contains (data c) key of
        Inl e \<Rightarrow> Inl e
      | Inr present \<Rightarrow> if present then py_getitem (data c) key else Inr (JBool False))"

text \<open>The \<^verbatim>\<open>try\<close> block of \<^verbatim>\<open>check_url_valid\<close> (lines 47 to 51).\<close>

definition check_url_valid_try :: "env \<Rightarrow> CatalogAPI \<Rightarrow> string \<Rightarrow> exn + json" where
  "check_url_valid_try w c key =
     (case py_getitem (data c) key of
        Inl e \<Rightarrow> Inl e
      | Inr v \<Rightarrow>
          (case requests_get w v None of
             Inl e \<Rightarrow> Inl e
           | Inr resp \<Rightarrow>
               (case raise_for_status resp of
                  Inl e \<Rightarrow> Inl e
                | Inr _ \<Rightarrow> if ok resp then Inr (JBool True) else Inr JNone)))"

text \<open>
  \<^verbatim>\<open>check_url_valid\<close> (lines 45 to 60). The handler reads \<^verbatim>\<open>self.data[key]\<close> again for
  its message.
\<close>

definition check_url_valid :: "env \<Rightarrow> CatalogAPI \<Rightarrow> string \<Rightarrow> exn + json" where
  "check_url_valid w c key =
     (case check_url_valid_try w c key of
        Inl (Requests e) \<Rightarrow>
          (case py_getitem (data c) key of
             Inl e' \<Rightarrow> Inl e'
           | Inr v \<Rightarrow>
               Inl (CriticalException (Message
                 (''URL '' @ py_format w v @ '' not valid: '' @ str_exc e))))
      | Inl e \<Rightarrow> Inl e
      | Inr v \<Rightarrow> Inr v)"

text \<open>The inner function \<^verbatim>\<open>age_month\<close> (lines 63 to 65).\<close>

definition age_month :: "env \<Rightarrow> datetime \<Rightarrow> int" where
  "age_month w d =
     (let today = get_today w
      in (year today - year d) * 12 + month today - month d)"

text \<open>
  \<^verbatim>\<open>check_date_age\<close> (lines 62 to 71). \<^verbatim>\<open>strptime\<close> raises \<^verbatim>\<open>TypeError\<close> for a first
  argument that is not a str; on a str, whatever it raises goes to the caller.
\<close>

definition check_date_age :: "env \<Rightarrow> CatalogAPI \<Rightarrow> string \<Rightarrow> string \<Rightarrow> exn + int" where
  "check_date_age w c key date_format =
     (case py_getitem (data c) key of
        Inl e \<Rightarrow> Inl e
      | Inr v \<Rightarrow>
          (case v of
             JStr s \<Rightarrow>
               (case strptime w s date_format of
                  Inl e \<Rightarrow> Inl e
                | Inr d \<Rightarrow> Inr (age_month w d))
           | _ \<Rightarrow> Inl TypeError))"

subsection \<open>The methods as actions on the object\<close>

text \<open>
  The definitions above give what each method returns from the attributes it reads. To
  say what a method does to the object, the same bodies are written once more as actions:
  an action takes the object \<^verbatim>\<open>self\<close> and gives a result or a raised exception together
  with the object as it then is. Reading an attribute, assigning one, calling something
  that does not hold the object, sequencing and \<^verbatim>\<open>try\<close>/\<^verbatim>\<open>except\<close> are the building
  blocks; each body below uses them where the source has them, line by line.
\<close>

type_synonym 'a action = "CatalogAPI \<Rightarrow> (exn + 'a) \<times> CatalogAPI"

definition return_m :: "'a \<Rightarrow> 'a action" where
  "return_m x = (\<lambda>s. (Inr x, s))"

definition raise_m :: "exn \<Rightarrow> 'a action" where
  "raise_m e = (\<lambda>s. (Inl e, s))"

text \<open>A call that is not given the object: its result, or what it raises.\<close>

definition lift_m :: "exn + 'a \<Rightarrow> 'a action" where
  "lift_m r = (\<lambda>s. (r, s))"

text \<open>One statement after another; an exception skips the rest.\<close>

definition bind_m :: "'a action \<Rightarrow> ('a \<Rightarrow> 'b action) \<Rightarrow> 'b action" where
  "bind_m m f =
     (\<lambda>s. case m s of (Inl e, s') \<Rightarrow> (Inl e, s') | (Inr x, s') \<Rightarrow> f x s')"

text \<open>\<^verbatim>\<open>try: m except ... as e: h e\<close>; the handler runs on the object as \<open>m\<close> left it.\<close>

definition catch_m :: "'a action \<Rightarrow> (exn \<Rightarrow> 'a action) \<Rightarrow> 'a action" where
  "catch_m m h =
     (\<lambda>s. case m s of (Inl e, s') \<Rightarrow> h e s' | (Inr x, s') \<Rightarrow> (Inr x, s'))"

text \<open>Reading \<^verbatim>\<open>self.url\<close>, \<^verbatim>\<open>self.catalog_id\<close>, \<^verbatim>\<open>self.timeout\<close>, \<^verbatim>\<open>self.data\<close>.\<close>

definition read_url :: "string action" where
  "read_url = (\<lambda>s. (Inr (url s), s))"

definition read_catalog_id :: "string action" where
  "read_catalog_id = (\<lambda>s. (Inr (catalog_id s), s))"

definition read_timeout :: "int action" where
  "read_timeout = (\<lambda>s. (Inr (timeout s), s))"

definition read_data :: "json action" where
  "read_data = (\<lambda>s. (Inr (data s), s))"

text \<open>The assignments \<^verbatim>\<open>self.url = v\<close>, \<^verbatim>\<open>self.catalog_id = v\<close>, \<^verbatim>\<open>self.timeout = v\<close>, \<^verbatim>\<open>self.data = v\<close>.\<close>

definition write_url :: "string \<Rightarrow> unit action" where
  "write_url v = (\<lambda>s. (Inr (), s\<lparr>url := v\<rparr>))"

definition write_catalog_id :: "string \<Rightarrow> unit action" where
  "write_catalog_id v = (\<lambda>s. (Inr (), s\<lparr>catalog_id := v\<rparr>))"

definition write_timeout :: "int \<Rightarrow> unit action" where
  "write_timeout v = (\<lambda>s. (Inr (), s\<lparr>timeout := v\<rparr>))"

definition write_data :: "json \<Rightarrow> unit action" where
  "write_data v = (\<lambda>s. (Inr (), s\<lparr>data := v\<rparr>))"

text \<open>\<^verbatim>\<open>_get_data\<close> (lines 18 to 40): it reads the three attributes set before it is called.\<close>

definition get_data_act :: "env \<Rightarrow> json action" where
  "get_data_act w =
     catch_m
       (bind_m read_url (\<lambda>u.
        bind_m read_catalog_id (\<lambda>cid.
        bind_m read_timeout (\<lambda>t.
        bind_m (lift_m (requests_get w (JStr (fetch_url u cid)) (Some t))) (\<lambda>resp.
        bind_m (lift_m (raise_for_status resp)) (\<lambda>_.
        if ok resp then lift_m (json_body resp) else return_m JNone))))))
       (\<lambda>e. case e of
          Requests re \<Rightarrow> raise_m (CriticalException (Wrapped re))
        | _ \<Rightarrow> raise_m e)"

text \<open>
  \<^verbatim>\<open>__init__\<close> (lines 12 to 16): four assignments, the last of what \<^verbatim>\<open>_get_data\<close> returns.
  It runs on the new object, whose attributes are not set yet (whatever the record holds
  for them is overwritten before it is read).
\<close>

definition init_act :: "env \<Rightarrow> string \<Rightarrow> string \<Rightarrow> int \<Rightarrow> unit action" where
  "init_act w u cid t =
     bind_m (write_url u) (\<lambda>_.
     bind_m (write_catalog_id cid) (\<lambda>_.
     bind_m (write_timeout t) (\<lambda>_.
     bind_m (get_data_act w) (\<lambda>d.
     write_data d))))"

text \<open>\<^verbatim>\<open>check_key_exists\<close> (lines 42 to 43): \<^verbatim>\<open>self.data\<close> is read for \<^verbatim>\<open>in\<close> and again for the lookup.\<close>

definition check_key_exists_act :: "string \<Rightarrow> json action" where
  "check_key_exists_act key =
     bind_m read_data (\<lambda>d.
     bind_m (lift_m (py_contains d key)) (\<lambda>present.
     if present then bind_m read_data (\<lambda>d'. lift_m (py_getitem d' key))
     else return_m (JBool False)))"

text \<open>\<^verbatim>\<open>check_url_valid\<close> (lines 45 to 60).\<close>

definition check_url_valid_act :: "env \<Rightarrow> string \<Rightarrow> json action" where
  "check_url_valid_act w key =
     catch_m
       (bind_m read_data (\<lambda>d.
        bind_m (lift_m (py_getitem d key)) (\<lambda>v.
        bind_m (lift_m (requests_get w v None)) (\<lambda>resp.
        bind_m (lift_m (raise_for_status resp)) (\<lambda>_.
        if ok resp then return_m (JBool True) else return_m JNone)))))
       (\<lambda>e. case e of
          Requests re \<Rightarrow>
            bind_m read_data (\<lambda>d.
            bind_m (lift_m (py_getitem d key)) (\<lambda>v.
            raise_m (CriticalException (Message
              (''URL '' @ py_format w v @ '' not valid: '' @ str_exc re)))))
        | _ \<Rightarrow> raise_m e)"

text \<open>\<^verbatim>\<open>check_date_age\<close> (lines 62 to 71).\<close>

definition check_date_age_act :: "env \<Rightarrow> string \<Rightarrow> string \<Rightarrow> int action" where
  "check_date_age_act w key date_format =
     bind_m read_data (\<lambda>d.
     bind_m (lift_m (py_getitem d key)) (\<lambda>v.
     case v of
       JStr s \<Rightarrow> bind_m (lift_m (strptime w s date_format)) (\<lambda>dt. return_m (age_month w dt))
     | _ \<Rightarrow> raise_m TypeError))"

text \<open>
  A caller's query on the object, each in the world of its call, and a sequence of them
  (a caller may go on after catching an exception).
\<close>

datatype query = CheckKeyExists string | CheckUrlValid string | CheckDateAge string string

fun call :: "env \<Rightarrow> query \<Rightarrow> json action" where
  "call w (CheckKeyExists key) = check_key_exists_act key"
| "call w (CheckUrlValid key) = check_url_valid_act w key"
| "call w (CheckDateAge key date_format) =
     bind_m (check_date_age_act w key date_format) (\<lambda>n. return_m (JInt n))"

fun run :: "(env \<times> query) list \<Rightarrow> CatalogAPI \<Rightarrow> (exn + json) list \<times> CatalogAPI" where
  "run [] c = ([], c)"
| "run ((w, q) # rest) c =
     (case call w q c of
        (r, c') \<Rightarrow> (case run rest c' of (rs, c'') \<Rightarrow> (r # rs, c'')))"

subsection \<open>The invariant of Python's datetime\<close>

definition is_leap :: "int \<Rightarrow> bool" where
  "is_leap y = (y mod 4 = 0 \<and> (y mod 100 \<noteq> 0 \<or> y mod 400 = 0))"

definition days_in_month :: "int \<Rightarrow> int \<Rightarrow> int" where
  "days_in_month y m =
     (if m = 2 then (if is_leap y then 29 else 28)
      else if m = 4 \<or> m = 6 \<or> m = 9 \<or> m = 11 then 30 else 31)"

definition valid_datetime :: "datetime \<Rightarrow> bool" where
  "valid_datetime d =
     (1 \<le> year d \<and> year d \<le> 9999 \<and> 1 \<le> month d \<and> month d \<le> 12 \<and>
      1 \<le> day d \<and> day d \<le> days_in_month (year d) (month d) \<and>
      0 \<le> hour d \<and> hour d < 24 \<and> 0 \<le> minute d \<and> minute d < 60 \<and>
      0 \<le> second d \<and> second d < 60 \<and> 0 \<le> microsecond d \<and> microsecond d < 1000000)"

subsection \<open>Concrete worlds and objects for the examples\<close>

definition date_of :: "int \<Rightarrow> int \<Rightarrow> int \<Rightarrow> datetime" where
  "date_of y m d =
     \<lparr>year = y, month = m, day = d, hour = 0, minute = 0, second = 0, microsecond = 0\<rparr>"

text \<open>
  Two responses with a given status line: one to a GET of the web page the sample document
  names (its body is no JSON), one to the catalog fetch (its body is a JSON object).
\<close>

definition page_response :: "int \<Rightarrow> string \<Rightarrow> response" where
  "page_response s r =
     \<lparr>status_code = s, reason = r, resp_url = ''https://example.org/doc'',
      json_body = Inl (ValueError ''Expecting value'')\<rparr>"

definition catalog_response :: "int \<Rightarrow> string \<Rightarrow> response" where
  "catalog_response s r =
     \<lparr>status_code = s, reason = r, resp_url = ''https://api.example.org/catalog/svc1'',
      json_body = Inr (JDict [(''name'', JStr ''svc'')])\<rparr>"

text \<open>
  A world on 2023-02-01 in which every GET has the given outcome and \<^verbatim>\<open>strptime\<close> knows
  two dates in the format \<^verbatim>\<open>%Y-%m-%d\<close>, fails to compile the format \<^verbatim>\<open>%Y %Y\<close> and
  matches nothing else.
\<close>

definition sample_env :: "exn + response \<Rightarrow> env" where
  "sample_env outcome =
     \<lparr>requests_get = (\<lambda>u t. outcome),
      strptime = (\<lambda>s f.
        if f = ''%Y-%m-%d'' \<and> s = ''2023-01-31'' then Inr (date_of 2023 1 31)
        else if f = ''%Y-%m-%d'' \<and> s = ''2023-03-15'' then Inr (date_of 2023 3 15)
        else if f = ''%Y %Y'' then Inl (ReError ''redefinition of group name'')
        else Inl (ValueError ''time data does not match format'')),
      clock = date_of 2023 2 1,
      str_of_object = (\<lambda>v. ''<object>'')\<rparr>"

definition sample_doc :: "(string \<times> json) list" where
  "sample_doc =
     [(''webpage'', JStr ''https://example.org/doc''),
      (''lastUpdate'', JStr ''2023-01-31''),
      (''nextReview'', JStr ''2023-03-15''),
      (''tagline'', JStr []),
      (''users'', JInt 0),
      (''active'', JBool True)]"

text \<open>An object before \<^verbatim>\<open>__init__\<close> has run.\<close>

definition new_object :: CatalogAPI where
  "new_object = \<lparr>url = [], catalog_id = [], timeout = 0, data = JNone\<rparr>"

definition sample_client :: CatalogAPI where
  "sample_client =
     \<lparr>url = ''https://api.example.org/catalog'', catalog_id = ''svc1'', timeout = 30,
      data = JDict sample_doc\<rparr>"

text \<open>The world in which every GET is answered with 200 OK.\<close>

definition sample_world :: env where
  "sample_world = sample_env (Inr (page_response 200 ''OK''))"

section \<open>Properties\<close>

subsection \<open>Facts about the library operations\<close>


lemma raise_for_status_error:
  "400 \<le> status_code r \<Longrightarrow> status_code r < 600 \<Longrightarrow>
   \<exists>m. raise_for_status r = Inl (Requests (HTTPError m))"
  by (simp add: raise_for_status_def)

lemma raise_for_status_pass:
  "\<not> (400 \<le> status_code r \<and> status_code r < 600) \<Longrightarrow> raise_for_status r = Inr () \<and> ok r"
  by (auto simp: raise_for_status_def ok_def)

lemma raise_for_status_cases:
  "(\<exists>m. raise_for_status r = Inl (Requests (HTTPError m)) \<and>
        400 \<le> status_code r \<and> status_code r < 600) \<or>
   (raise_for_status r = Inr () \<and> ok r \<and> \<not> (400 \<le> status_code r \<and> status_code r < 600))"
  by (auto simp: raise_for_status_def ok_def)

subsection \<open>The sample objects\<close>

lemma sample_client_data: "data sample_client = JDict sample_doc"
  by (simp add: sample_client_def)

lemma sample_world_today: "get_today sample_world = date_of 2023 2 1"
  by (simp add: get_today_def sample_world_def sample_env_def)

lemma sample_init:
  "init (sample_env (Inr (catalog_response 200 ''OK''))) ''https://api.example.org/catalog'' ''svc1'' 30 =
     Inr \<lparr>url = ''https://api.example.org/catalog'', catalog_id = ''svc1'', timeout = 30,
          data = JDict [(''name'', JStr ''svc'')]\<rparr>"
  by (simp add: init_def get_data_def get_data_try_def sample_env_def catalog_response_def
      raise_for_status_def ok_def)

subsection \<open>Each method on a document\<close>

text \<open>
  The spec's document is a mapping from string keys to JSON values: the stored object is a
  dict, and a key is a str. On a dict the three methods read as follows.
\<close>

lemma check_key_exists_dict:
  "data c = JDict kvs \<Longrightarrow>
   check_key_exists c key = Inr (case map_of kvs key of None \<Rightarrow> JBool False | Some v \<Rightarrow> v)"
  by (auto simp: check_key_exists_def split: option.splits)

lemma check_date_age_dict:
  "data c = JDict kvs \<Longrightarrow>
   check_date_age w c key fmt =
     (case map_of kvs key of
        None \<Rightarrow> Inl (KeyError key)
      | Some (JStr s) \<Rightarrow>
          (case strptime w s fmt of Inl e \<Rightarrow> Inl e | Inr d \<Rightarrow> Inr (age_month w d))
      | Some _ \<Rightarrow> Inl TypeError)"
  by (simp add: check_date_age_def split: option.splits json.splits)

lemma age_month_formula:
  "age_month w d = (year (get_today w) - year d) * 12 + month (get_today w) - month d"
  by (simp add: age_month_def Let_def)

lemma check_url_valid_raised:
  assumes "data c = JDict kvs" and "map_of kvs key = Some v"
    and "requests_get w v None = Inl (Requests e)"
  shows "check_url_valid w c key =
    Inl (CriticalException (Message (''URL '' @ py_format w v @ '' not valid: '' @ str_exc e)))"
  using assms by (simp add: check_url_valid_def check_url_valid_try_def)

lemma check_url_valid_status_error:
  assumes "data c = JDict kvs" and "map_of kvs key = Some v"
    and "requests_get w v None = Inr resp"
    and "raise_for_status resp = Inl (Requests (HTTPError m))"
  shows "check_url_valid w c key =
    Inl (CriticalException (Message (''URL '' @ py_format w v @ '' not valid: '' @ m)))"
  using assms by (simp add: check_url_valid_def check_url_valid_try_def)

lemma check_url_valid_status_pass:
  assumes "data c = JDict kvs" and "map_of kvs key = Some v"
    and "requests_get w v None = Inr resp"
    and "\<not> (400 \<le> status_code resp \<and> status_code resp < 600)"
  shows "check_url_valid w c key = Inr (JBool True)"
  using assms raise_for_status_pass [of resp]
  by (simp add: check_url_valid_def check_url_valid_try_def)

lemma check_url_valid_other:
  assumes "data c = JDict kvs" and "map_of kvs key = Some v"
    and "requests_get w v None = Inl e"
  shows "\<exists>e'. check_url_valid w c key = Inl e'"
  using assms by (cases e) (simp_all add: check_url_valid_def check_url_valid_try_def)

lemma get_data_caught:
  "get_data_try w u cid t = Inl (Requests e) \<Longrightarrow>
   get_data w u cid t = Inl (CriticalException (Wrapped e))"
  by (simp add: get_data_def)

lemma init_raises:
  "get_data w u cid t = Inl e \<Longrightarrow> init w u cid t = Inl e"
  by (simp add: init_def)

lemma init_fields:
  "init w u cid t = Inr c \<Longrightarrow>
   url c = u \<and> catalog_id c = cid \<and> timeout c = t \<and> get_data w u cid t = Inr (data c)"
  by (auto simp: init_def split: sum.splits)

subsection \<open>Actions that leave the object as it is\<close>

lemma return_keeps: "snd (return_m x s) = s"
  by (simp add: return_m_def)

lemma raise_keeps: "snd (raise_m e s) = s"
  by (simp add: raise_m_def)

lemma lift_keeps: "snd (lift_m r s) = s"
  by (simp add: lift_m_def)

lemma read_keeps:
  "snd (read_url s) = s" "snd (read_catalog_id s) = s" "snd (read_timeout s) = s"
  "snd (read_data s) = s"
  by (simp_all add: read_url_def read_catalog_id_def read_timeout_def read_data_def)

lemma bind_keeps:
  assumes "\<And>s. snd (m s) = s" and "\<And>x s. snd (f x s) = s"
  shows "snd (bind_m m f s) = s"
proof (cases "m s")
  case (Pair r s')
  with assms(1) [of s] have "s' = s" by simp
  with Pair assms(2) show ?thesis
    by (cases r) (simp_all add: bind_m_def)
qed

lemma catch_keeps:
  assumes "\<And>s. snd (m s) = s" and "\<And>e s. snd (h e s) = s"
  shows "snd (catch_m m h s) = s"
proof (cases "m s")
  case (Pair r s')
  with assms(1) [of s] have "s' = s" by simp
  with Pair assms(2) show ?thesis
    by (cases r) (simp_all add: catch_m_def)
qed

text \<open>An assignment does not: the statements below are about the bodies, not the type.\<close>

lemma write_data_changes: "data s \<noteq> v \<Longrightarrow> snd (write_data v s) \<noteq> s"
proof
  assume "data s \<noteq> v" and "snd (write_data v s) = s"
  moreover have "data (snd (write_data v s)) = v"
    by (simp add: write_data_def)
  ultimately show False by simp
qed

lemma check_key_exists_act_keeps: "snd (check_key_exists_act key s) = s"
  unfolding check_key_exists_act_def
  by (intro bind_keeps read_keeps lift_keeps) (simp add: bind_keeps read_keeps lift_keeps return_keeps)

lemma check_url_valid_act_keeps: "snd (check_url_valid_act w key s) = s"
  unfolding check_url_valid_act_def
proof (intro catch_keeps bind_keeps read_keeps lift_keeps)
  fix resp :: response and s :: CatalogAPI
  show "snd ((if ok resp then return_m (JBool True) else return_m JNone) s) = s"
    by (simp add: return_keeps)
next
  fix e :: exn and s :: CatalogAPI
  show "snd ((case e of
          Requests re \<Rightarrow>
            bind_m read_data (\<lambda>d.
            bind_m (lift_m (py_getitem d key)) (\<lambda>v.
            raise_m (CriticalException (Message
              (''URL '' @ py_format w v @ '' not valid: '' @ str_exc re)))))
        | _ \<Rightarrow> raise_m e) s) = s"
    by (cases e) (simp_all add: raise_keeps bind_keeps read_keeps lift_keeps)
qed

lemma check_date_age_act_keeps: "snd (check_date_age_act w key fmt s) = s"
  unfolding check_date_age_act_def
proof (intro bind_keeps read_keeps lift_keeps)
  fix v :: json and s :: CatalogAPI
  show "snd ((case v of
       JStr x \<Rightarrow> bind_m (lift_m (strptime w x fmt)) (\<lambda>dt. return_m (age_month w dt))
     | _ \<Rightarrow> raise_m TypeError) s) = s"
    by (cases v) (simp_all add: raise_keeps bind_keeps lift_keeps return_keeps)
qed

lemma call_keeps_object: "snd (call w q c) = c"
  by (cases q)
    (simp_all add: check_key_exists_act_keeps check_url_valid_act_keeps
      check_date_age_act_keeps bind_keeps return_keeps)

lemma run_keeps_object: "snd (run calls c) = c"
proof (induction calls arbitrary: c)
  case Nil
  show ?case by simp
next
  case (Cons wq rest)
  obtain w q where wq: "wq = (w, q)" by (cases wq)
  obtain r where r: "call w q c = (r, c)"
    using call_keeps_object [of w q c] by (cases "call w q c") simp
  obtain rs where rs: "run rest c = (rs, c)"
    using Cons.IH [of c] by (cases "run rest c") simp
  show ?case
    by (simp add: wq r rs)
qed

subsection \<open>The actions compute what the methods return\<close>

lemma check_key_exists_act_result: "fst (check_key_exists_act key c) = check_key_exists c key"
  by (auto simp: check_key_exists_act_def check_key_exists_def bind_m_def read_data_def
      lift_m_def return_m_def split: sum.splits)

lemma check_url_valid_act_result: "fst (check_url_valid_act w key c) = check_url_valid w c key"
  by (auto simp: check_url_valid_act_def check_url_valid_def check_url_valid_try_def
      catch_m_def bind_m_def read_data_def lift_m_def return_m_def raise_m_def
      split: sum.splits exn.splits)

lemma check_date_age_act_result:
  "fst (check_date_age_act w key fmt c) = check_date_age w c key fmt"
  by (auto simp: check_date_age_act_def check_date_age_def bind_m_def read_data_def
      lift_m_def return_m_def raise_m_def split: sum.splits json.splits)

lemma get_data_act_result:
  "get_data_act w s = (get_data w (url s) (catalog_id s) (timeout s), s)"
  by (auto simp: get_data_act_def get_data_def get_data_try_def catch_m_def bind_m_def
      read_url_def read_catalog_id_def read_timeout_def lift_m_def return_m_def raise_m_def
      split: sum.splits exn.splits)

lemma init_act_result:
  "init_act w u cid t s0 =
     (case get_data w u cid t of
        Inl e \<Rightarrow> (Inl e, s0\<lparr>url := u, catalog_id := cid, timeout := t\<rparr>)
      | Inr d \<Rightarrow> (Inr (), \<lparr>url = u, catalog_id = cid, timeout = t, data = d\<rparr>))"
  by (cases s0)
    (simp add: init_act_def bind_m_def write_url_def write_catalog_id_def write_timeout_def
      write_data_def get_data_act_result split: sum.splits)

lemma init_act_init:
  "init_act w u cid t s0 = (Inr (), c) \<longleftrightarrow> init w u cid t = Inr c"
  by (auto simp: init_act_result init_def split: sum.splits)

subsection \<open>Key presence\<close>




text \<open>
  C9, as amended. For every document and every key, \<^verbatim>\<open>check_key_exists\<close> raises no error;
  for a present key it returns the stored object itself, truthy or not, and for an absent
  key the bool \<^verbatim>\<open>False\<close>. So its result is a bool only when the key is absent or the stored
  object is itself a bool.
\<close>

theorem check_key_exists_value:
  assumes "data c = JDict kvs"
  shows "(\<exists>r. check_key_exists c key = Inr r) \<and>
         (\<forall>v. map_of kvs key = Some v \<longrightarrow> check_key_exists c key = Inr v) \<and>
         (map_of kvs key = None \<longrightarrow> check_key_exists c key = Inr (JBool False)) \<and>
         (\<forall>b. check_key_exists c key = Inr (JBool b) \<longrightarrow>
            (map_of kvs key = None \<and> b = False) \<or> map_of kvs key = Some (JBool b))"
  using assms by (auto simp: check_key_exists_dict split: option.splits)

theorem check_key_exists_value_witness:
  "data sample_client = JDict sample_doc \<and>
   map_of sample_doc ''webpage'' = Some (JStr ''https://example.org/doc'') \<and>
   check_key_exists sample_client ''webpage'' = Inr (JStr ''https://example.org/doc'')"
proof -
  have m: "map_of sample_doc ''webpage'' = Some (JStr ''https://example.org/doc'')"
    by (simp add: sample_doc_def)
  from check_key_exists_value [OF sample_client_data, of "''webpage''"] m sample_client_data
  show ?thesis by blast
qed

text \<open>
  The claim as written ends: the result is a boolean only when the key is absent or the
  value is falsy. The key \<^verbatim>\<open>active\<close> is present, its value \<^verbatim>\<open>True\<close> is truthy, and the
  result is the bool \<^verbatim>\<open>True\<close>. (Nor is the result a bool for every falsy value: for the
  empty string it is the empty string.)
\<close>

theorem check_key_exists_boolean_counterexample:
  "check_key_exists sample_client ''active'' = Inr (JBool True) \<and>
   map_of sample_doc ''active'' = Some (JBool True) \<and>
   truthy (JBool True) \<and>
   map_of sample_doc ''tagline'' = Some (JStr []) \<and>
   check_key_exists sample_client ''tagline'' = Inr (JStr [])"
  by (simp add: check_key_exists_def sample_client_def sample_doc_def)

subsection \<open>Age in months\<close>

text \<open>
  C2. For every document whose value at the key is a date string that \<^verbatim>\<open>strptime\<close> parses
  with the given format to \<open>d\<close>, and for every current time, \<^verbatim>\<open>check_date_age\<close> returns
  exactly \<open>(now.year - d.year) * 12 + now.month - d.month\<close>; the day of the month is
  ignored entirely (a date and a clock with the same years and months give the same result);
  for the stored date 2023-01-31 and the current date 2023-02-01 it returns 1.
\<close>

theorem check_date_age_months:
  assumes "data c = JDict kvs"
    and "map_of kvs key = Some (JStr s)"
    and "strptime w s fmt = Inr d"
  shows "check_date_age w c key fmt =
           Inr ((year (get_today w) - year d) * 12 + month (get_today w) - month d) \<and>
         (\<forall>w' d'. strptime w' s fmt = Inr d' \<and> year d' = year d \<and> month d' = month d \<and>
            year (get_today w') = year (get_today w) \<and>
            month (get_today w') = month (get_today w) \<longrightarrow>
            check_date_age w' c key fmt = check_date_age w c key fmt) \<and>
         (year d = 2023 \<and> month d = 1 \<and> day d = 31 \<and>
          year (get_today w) = 2023 \<and> month (get_today w) = 2 \<and> day (get_today w) = 1
          \<longrightarrow> check_date_age w c key fmt = Inr 1)"
  using assms by (simp add: check_date_age_dict age_month_formula)

theorem check_date_age_months_witness:
  "data sample_client = JDict sample_doc \<and>
   map_of sample_doc ''lastUpdate'' = Some (JStr ''2023-01-31'') \<and>
   strptime sample_world ''2023-01-31'' ''%Y-%m-%d'' = Inr (date_of 2023 1 31) \<and>
   get_today sample_world = date_of 2023 2 1 \<and>
   check_date_age sample_world sample_client ''lastUpdate'' ''%Y-%m-%d'' = Inr 1"
proof -
  have m: "map_of sample_doc ''lastUpdate'' = Some (JStr ''2023-01-31'')"
    by (simp add: sample_doc_def)
  have p: "strptime sample_world ''2023-01-31'' ''%Y-%m-%d'' = Inr (date_of 2023 1 31)"
    by (simp add: sample_world_def sample_env_def)
  from check_date_age_months [OF sample_client_data m p] sample_world_today
  have "check_date_age sample_world sample_client ''lastUpdate'' ''%Y-%m-%d'' = Inr 1"
    by (simp add: date_of_def)
  with sample_client_data m p sample_world_today show ?thesis by simp
qed

text \<open>
  C7. For every document, \<^verbatim>\<open>check_date_age\<close> raises an error and returns no integer
  whenever the key is absent from the document (\<^verbatim>\<open>KeyError\<close>) or the value at the key
  cannot be parsed against the date format (the exception \<^verbatim>\<open>strptime\<close> raises for a
  string, whichever it is; \<^verbatim>\<open>TypeError\<close> for a value that is no string).
\<close>

theorem check_date_age_raises:
  assumes "data c = JDict kvs"
  shows "(map_of kvs key = None \<longrightarrow> check_date_age w c key fmt = Inl (KeyError key)) \<and>
         (\<forall>s e. map_of kvs key = Some (JStr s) \<and> strptime w s fmt = Inl e \<longrightarrow>
            check_date_age w c key fmt = Inl e) \<and>
         (\<forall>v. map_of kvs key = Some v \<and> (\<forall>s. v \<noteq> JStr s) \<longrightarrow>
            check_date_age w c key fmt = Inl TypeError) \<and>
         (map_of kvs key = None \<or>
          (\<exists>v. map_of kvs key = Some v \<and> (\<forall>s d. v = JStr s \<longrightarrow> strptime w s fmt \<noteq> Inr d))
          \<longrightarrow> (\<exists>e. check_date_age w c key fmt = Inl e) \<and>
               (\<forall>n. check_date_age w c key fmt \<noteq> Inr n))"
proof -
  have a: "map_of kvs key = None \<Longrightarrow> check_date_age w c key fmt = Inl (KeyError key)"
    using assms by (simp add: check_date_age_dict)
  have b: "\<And>s e. map_of kvs key = Some (JStr s) \<Longrightarrow> strptime w s fmt = Inl e \<Longrightarrow>
      check_date_age w c key fmt = Inl e"
    using assms by (simp add: check_date_age_dict)
  have t: "\<And>v. map_of kvs key = Some v \<Longrightarrow> (\<forall>s. v \<noteq> JStr s) \<Longrightarrow>
      check_date_age w c key fmt = Inl TypeError"
    using assms by (simp add: check_date_age_dict split: json.splits)
  have n: "\<exists>e. check_date_age w c key fmt = Inl e"
    if "map_of kvs key = None \<or>
        (\<exists>v. map_of kvs key = Some v \<and> (\<forall>s d. v = JStr s \<longrightarrow> strptime w s fmt \<noteq> Inr d))"
    using that
  proof
    assume "map_of kvs key = None"
    with a show ?thesis by blast
  next
    assume "\<exists>v. map_of kvs key = Some v \<and> (\<forall>s d. v = JStr s \<longrightarrow> strptime w s fmt \<noteq> Inr d)"
    then obtain v where v: "map_of kvs key = Some v"
      and u: "\<forall>s d. v = JStr s \<longrightarrow> strptime w s fmt \<noteq> Inr d"
      by blast
    show ?thesis
    proof (cases "\<exists>s. v = JStr s")
      case True
      then obtain s where s: "v = JStr s" by blast
      with u have "\<forall>d. strptime w s fmt \<noteq> Inr d" by blast
      then obtain e where "strptime w s fmt = Inl e"
        by (cases "strptime w s fmt") auto
      with b [of s e] v s show ?thesis by blast
    next
      case False
      with t [OF v] show ?thesis by blast
    qed
  qed
  from a b t n show ?thesis by auto
qed

theorem check_date_age_raises_witness:
  "data sample_client = JDict sample_doc \<and>
   map_of sample_doc ''contact'' = None \<and>
   check_date_age sample_world sample_client ''contact'' ''%Y-%m-%d'' =
     Inl (KeyError ''contact'') \<and>
   map_of sample_doc ''webpage'' = Some (JStr ''https://example.org/doc'') \<and>
   strptime sample_world ''https://example.org/doc'' ''%Y-%m-%d'' =
     Inl (ValueError ''time data does not match format'') \<and>
   check_date_age sample_world sample_client ''webpage'' ''%Y-%m-%d'' =
     Inl (ValueError ''time data does not match format'') \<and>
   map_of sample_doc ''lastUpdate'' = Some (JStr ''2023-01-31'') \<and>
   strptime sample_world ''2023-01-31'' ''%Y %Y'' = Inl (ReError ''redefinition of group name'') \<and>
   check_date_age sample_world sample_client ''lastUpdate'' ''%Y %Y'' =
     Inl (ReError ''redefinition of group name'') \<and>
   map_of sample_doc ''users'' = Some (JInt 0) \<and>
   check_date_age sample_world sample_client ''users'' ''%Y-%m-%d'' = Inl TypeError"
proof -
  have m1: "map_of sample_doc ''contact'' = None"
    by (simp add: sample_doc_def)
  have m2: "map_of sample_doc ''webpage'' = Some (JStr ''https://example.org/doc'')"
    by (simp add: sample_doc_def)
  have m3: "map_of sample_doc ''lastUpdate'' = Some (JStr ''2023-01-31'')"
    by (simp add: sample_doc_def)
  have m4: "map_of sample_doc ''users'' = Some (JInt 0)"
    by (simp add: sample_doc_def)
  have p2: "strptime sample_world ''https://example.org/doc'' ''%Y-%m-%d'' =
     Inl (ValueError ''time data does not match format'')"
    by (simp add: sample_world_def sample_env_def)
  have p3: "strptime sample_world ''2023-01-31'' ''%Y %Y'' =
     Inl (ReError ''redefinition of group name'')"
    by (simp add: sample_world_def sample_env_def)
  from check_date_age_raises [OF sample_client_data, of "''contact''"] m1
  have r1: "check_date_age sample_world sample_client ''contact'' ''%Y-%m-%d'' =
     Inl (KeyError ''contact'')"
    by blast
  from check_date_age_raises [OF sample_client_data, of "''webpage''"] m2 p2
  have r2: "check_date_age sample_world sample_client ''webpage'' ''%Y-%m-%d'' =
     Inl (ValueError ''time data does not match format'')"
    by blast
  from check_date_age_raises [OF sample_client_data, of "''lastUpdate''"] m3 p3
  have r3: "check_date_age sample_world sample_client ''lastUpdate'' ''%Y %Y'' =
     Inl (ReError ''redefinition of group name'')"
    by blast
  from check_date_age_raises [OF sample_client_data, of "''users''"] m4
  have r4: "check_date_age sample_world sample_client ''users'' ''%Y-%m-%d'' = Inl TypeError"
    by blast
  from sample_client_data m1 m2 m3 m4 p2 p3 r1 r2 r3 r4 show ?thesis by simp
qed

text \<open>
  C10. For every document whose value at the key parses to a date in a calendar month
  strictly after the current month, \<^verbatim>\<open>check_date_age\<close> returns a negative integer: the
  formula is not clamped at zero. Both datetimes are ones Python can build (months from 1
  to 12).
\<close>

theorem check_date_age_future_negative:
  assumes "data c = JDict kvs"
    and "map_of kvs key = Some (JStr s)"
    and "strptime w s fmt = Inr d"
    and "valid_datetime d"
    and "valid_datetime (get_today w)"
    and "year (get_today w) < year d \<or>
         (year d = year (get_today w) \<and> month (get_today w) < month d)"
  shows "\<exists>n. check_date_age w c key fmt = Inr n \<and> n < 0"
proof -
  have r: "check_date_age w c key fmt =
      Inr ((year (get_today w) - year d) * 12 + month (get_today w) - month d)"
    using assms(1-3) by (simp add: check_date_age_dict age_month_formula)
  have md: "1 \<le> month d" "month d \<le> 12"
    using assms(4) by (simp_all add: valid_datetime_def)
  have mt: "1 \<le> month (get_today w)" "month (get_today w) \<le> 12"
    using assms(5) by (simp_all add: valid_datetime_def)
  have "(year (get_today w) - year d) * 12 + month (get_today w) - month d < 0"
    using assms(6) md mt by auto
  with r show ?thesis by simp
qed

theorem check_date_age_future_negative_witness:
  "data sample_client = JDict sample_doc \<and>
   map_of sample_doc ''nextReview'' = Some (JStr ''2023-03-15'') \<and>
   strptime sample_world ''2023-03-15'' ''%Y-%m-%d'' = Inr (date_of 2023 3 15) \<and>
   valid_datetime (date_of 2023 3 15) \<and>
   valid_datetime (get_today sample_world) \<and>
   year (date_of 2023 3 15) = year (get_today sample_world) \<and>
   month (get_today sample_world) < month (date_of 2023 3 15) \<and>
   check_date_age sample_world sample_client ''nextReview'' ''%Y-%m-%d'' = Inr (- 1)"
proof -
  have m: "map_of sample_doc ''nextReview'' = Some (JStr ''2023-03-15'')"
    by (simp add: sample_doc_def)
  have p: "strptime sample_world ''2023-03-15'' ''%Y-%m-%d'' = Inr (date_of 2023 3 15)"
    by (simp add: sample_world_def sample_env_def)
  have v1: "valid_datetime (date_of 2023 3 15)"
    by (simp add: valid_datetime_def date_of_def days_in_month_def)
  have v2: "valid_datetime (get_today sample_world)"
    by (simp add: sample_world_today valid_datetime_def date_of_def days_in_month_def is_leap_def)
  have o: "year (date_of 2023 3 15) = year (get_today sample_world) \<and>
           month (get_today sample_world) < month (date_of 2023 3 15)"
    by (simp add: sample_world_today date_of_def)
  then have o': "year (get_today sample_world) < year (date_of 2023 3 15) \<or>
         (year (date_of 2023 3 15) = year (get_today sample_world) \<and>
          month (get_today sample_world) < month (date_of 2023 3 15))"
    by blast
  from check_date_age_future_negative [OF sample_client_data m p v1 v2 o']
  obtain n where n: "check_date_age sample_world sample_client ''nextReview'' ''%Y-%m-%d'' = Inr n"
    and "n < 0"
    by blast
  moreover have "check_date_age sample_world sample_client ''nextReview'' ''%Y-%m-%d'' =
      Inr (age_month sample_world (date_of 2023 3 15))"
    using m p by (simp add: check_date_age_dict [OF sample_client_data])
  moreover have "age_month sample_world (date_of 2023 3 15) = - 1"
    by (simp add: age_month_formula sample_world_today date_of_def)
  ultimately have "check_date_age sample_world sample_client ''nextReview'' ''%Y-%m-%d'' = Inr (- 1)"
    by simp
  with sample_client_data m p v1 v2 o show ?thesis by simp
qed

subsection \<open>No mutation\<close>

text \<open>
  C8. After successful construction the state of the client (base URL, catalog identifier,
  timeout and the fetched document) is never mutated: each query (\<^verbatim>\<open>check_key_exists\<close>,
  \<^verbatim>\<open>check_url_valid\<close>, \<^verbatim>\<open>check_date_age\<close>), in whatever world and whether it returns or
  raises, and every sequence of them, leaves all fields as construction left them: the
  constructor's arguments and the document \<^verbatim>\<open>_get_data\<close> returned.
\<close>

theorem queries_never_mutate:
  assumes "init_act w0 u cid t s0 = (Inr (), c)"
  shows "snd (check_key_exists_act key c) = c \<and>
         snd (check_url_valid_act w key c) = c \<and>
         snd (check_date_age_act w key fmt c) = c \<and>
         snd (run calls c) = c \<and>
         url (snd (run calls c)) = u \<and>
         catalog_id (snd (run calls c)) = cid \<and>
         timeout (snd (run calls c)) = t \<and>
         get_data w0 u cid t = Inr (data (snd (run calls c)))"
proof -
  from assms have "init w0 u cid t = Inr c"
    by (simp add: init_act_init)
  from init_fields [OF this] show ?thesis
    by (simp add: check_key_exists_act_keeps check_url_valid_act_keeps
        check_date_age_act_keeps run_keeps_object)
qed

lemma sample_init_act:
  "init_act (sample_env (Inr (catalog_response 200 ''OK''))) ''https://api.example.org/catalog''
     ''svc1'' 30 new_object =
     (Inr (), \<lparr>url = ''https://api.example.org/catalog'', catalog_id = ''svc1'', timeout = 30,
               data = JDict [(''name'', JStr ''svc'')]\<rparr>)"
  using sample_init by (simp add: init_act_result get_data_def init_def split: sum.splits)

theorem queries_never_mutate_witness:
  "init_act (sample_env (Inr (catalog_response 200 ''OK''))) ''https://api.example.org/catalog''
     ''svc1'' 30 new_object =
     (Inr (), \<lparr>url = ''https://api.example.org/catalog'', catalog_id = ''svc1'', timeout = 30,
               data = JDict [(''name'', JStr ''svc'')]\<rparr>) \<and>
   snd (run [(sample_env (Inl (Requests (Timeout ''timed out''))), CheckUrlValid ''name''),
             (sample_world, CheckKeyExists ''name''),
             (sample_world, CheckDateAge ''name'' ''%Y-%m-%d'')]
          \<lparr>url = ''https://api.example.org/catalog'', catalog_id = ''svc1'', timeout = 30,
           data = JDict [(''name'', JStr ''svc'')]\<rparr>) =
     \<lparr>url = ''https://api.example.org/catalog'', catalog_id = ''svc1'', timeout = 30,
      data = JDict [(''name'', JStr ''svc'')]\<rparr>"
  using queries_never_mutate [OF sample_init_act] sample_init_act by blast

subsection \<open>The fetch URL\<close>

text \<open>
  C6, as amended. For every base URL and every catalog identifier the fetch URL is
  \<open>b + "/" + id\<close>, where \<open>b\<close> is the base URL without its last slash if it ends in one
  (and the base URL itself otherwise): the separator is never omitted, and this is the URL
  the constructor requests. When the base URL does not end in two slashes, \<open>b\<close> does not
  end in a slash, so that for an identifier that does not begin with a slash the two are
  joined by exactly one slash.
\<close>

theorem fetch_url_one_slash:
  "fetch_url u cid = (if endswith u ''/'' then butlast u else u) @ ''/'' @ cid \<and>
   (\<not> endswith u ''//'' \<longrightarrow>
      \<not> endswith (if endswith u ''/'' then butlast u else u) ''/'') \<and>
   (\<forall>w w'. requests_get w (JStr (fetch_url u cid)) (Some t) =
            requests_get w' (JStr (fetch_url u cid)) (Some t)
      \<longrightarrow> get_data w u cid t = get_data w' u cid t)"
proof -
  let ?b = "if endswith u ''/'' then butlast u else u"
  have f: "fetch_url u cid = ?b @ ''/'' @ cid"
  proof (cases "endswith u ''/''")
    case True
    then obtain b where b: "u = b @ ''/''"
      by (auto simp: endswith_def suffix_def)
    with True show ?thesis by (simp add: fetch_url_def)
  next
    case False
    then show ?thesis by (simp add: fetch_url_def)
  qed
  have e: "\<not> endswith ?b ''/''" if "\<not> endswith u ''//''"
  proof (cases "endswith u ''/''")
    case True
    then obtain b where b: "u = b @ ''/''"
      by (auto simp: endswith_def suffix_def)
    with that have "\<not> endswith b ''/''"
      by (auto simp: endswith_def suffix_def)
    with True b show ?thesis by simp
  next
    case False
    then show ?thesis by simp
  qed
  have q: "\<And>w w'. requests_get w (JStr (fetch_url u cid)) (Some t) =
            requests_get w' (JStr (fetch_url u cid)) (Some t)
      \<Longrightarrow> get_data w u cid t = get_data w' u cid t"
    by (simp add: get_data_def get_data_try_def)
  from f e q show ?thesis by blast
qed

theorem fetch_url_one_slash_witness:
  "\<not> endswith ''https://api.example.org/catalog/'' ''//'' \<and>
   fetch_url ''https://api.example.org/catalog/'' ''svc1'' = ''https://api.example.org/catalog/svc1'' \<and>
   \<not> endswith ''https://api.example.org/catalog'' ''//'' \<and>
   fetch_url ''https://api.example.org/catalog'' ''svc1'' = ''https://api.example.org/catalog/svc1''"
proof -
  have e1: "\<not> endswith ''https://api.example.org/catalog/'' ''//''"
    by (simp add: endswith_def suffix_to_prefix)
  have e2: "\<not> endswith ''https://api.example.org/catalog'' ''//''"
    by (simp add: endswith_def suffix_to_prefix)
  have s1: "endswith ''https://api.example.org/catalog/'' ''/''"
    by (simp add: endswith_def suffix_to_prefix)
  have s2: "\<not> endswith ''https://api.example.org/catalog'' ''/''"
    by (simp add: endswith_def suffix_to_prefix)
  from fetch_url_one_slash [of "''https://api.example.org/catalog/''" "''svc1''"] s1
  have r1: "fetch_url ''https://api.example.org/catalog/'' ''svc1'' = ''https://api.example.org/catalog/svc1''"
    by simp
  from fetch_url_one_slash [of "''https://api.example.org/catalog''" "''svc1''"] s2
  have r2: "fetch_url ''https://api.example.org/catalog'' ''svc1'' = ''https://api.example.org/catalog/svc1''"
    by simp
  from e1 e2 r1 r2 show ?thesis by simp
qed

text \<open>
  The claim as written covers every base URL and every identifier. A base URL that ends
  in two slashes keeps both, and an identifier that begins with a slash adds a second one:
  a double slash at the join.
\<close>

theorem fetch_url_double_slash_counterexample:
  "fetch_url ''https://api.example.org//'' ''svc1'' = ''https://api.example.org//svc1'' \<and>
   fetch_url ''https://api.example.org'' ''/svc1'' = ''https://api.example.org//svc1''"
  by (simp add: fetch_url_def endswith_def suffix_to_prefix)

subsection \<open>URL validity\<close>

text \<open>
  C5, as amended. For every key present in the document, \<^verbatim>\<open>check_url_valid\<close> returns
  \<^verbatim>\<open>True\<close> exactly when the GET against the stored value returns a response whose status
  is not from 400 to 599 (the statuses \<^verbatim>\<open>raise_for_status\<close> rejects); when the status is
  2xx, and 200 in particular, it returns \<^verbatim>\<open>True\<close>.
\<close>

theorem check_url_valid_true:
  assumes "data c = JDict kvs" and "map_of kvs key = Some v"
  shows "(check_url_valid w c key = Inr (JBool True) \<longleftrightarrow>
            (\<exists>resp. requests_get w v None = Inr resp \<and>
               \<not> (400 \<le> status_code resp \<and> status_code resp < 600))) \<and>
         (\<forall>resp. requests_get w v None = Inr resp \<and>
            200 \<le> status_code resp \<and> status_code resp < 300 \<longrightarrow>
            check_url_valid w c key = Inr (JBool True)) \<and>
         (\<forall>resp. requests_get w v None = Inr resp \<and> status_code resp = 200 \<longrightarrow>
            check_url_valid w c key = Inr (JBool True))"
proof -
  have a: "check_url_valid w c key = Inr (JBool True) \<longleftrightarrow>
            (\<exists>resp. requests_get w v None = Inr resp \<and>
               \<not> (400 \<le> status_code resp \<and> status_code resp < 600))"
  proof (cases "requests_get w v None")
    case (Inl e)
    with check_url_valid_other [OF assms Inl] show ?thesis by auto
  next
    case (Inr resp)
    show ?thesis
    proof (cases "400 \<le> status_code resp \<and> status_code resp < 600")
      case True
      then obtain m where "raise_for_status resp = Inl (Requests (HTTPError m))"
        using raise_for_status_error [of resp] by blast
      from check_url_valid_status_error [OF assms Inr this] True Inr
      show ?thesis by simp
    next
      case False
      from check_url_valid_status_pass [OF assms Inr False] False Inr
      show ?thesis by simp
    qed
  qed
  have b: "\<And>resp. requests_get w v None = Inr resp \<Longrightarrow>
      200 \<le> status_code resp \<and> status_code resp < 300 \<Longrightarrow>
      check_url_valid w c key = Inr (JBool True)"
    using check_url_valid_status_pass [OF assms] by simp
  from a b show ?thesis by auto
qed

theorem check_url_valid_true_witness:
  "data sample_client = JDict sample_doc \<and>
   map_of sample_doc ''webpage'' = Some (JStr ''https://example.org/doc'') \<and>
   requests_get sample_world (JStr ''https://example.org/doc'') None =
     Inr (page_response 200 ''OK'') \<and>
   status_code (page_response 200 ''OK'') = 200 \<and>
   check_url_valid sample_world sample_client ''webpage'' = Inr (JBool True)"
proof -
  have m: "map_of sample_doc ''webpage'' = Some (JStr ''https://example.org/doc'')"
    by (simp add: sample_doc_def)
  have g: "requests_get sample_world (JStr ''https://example.org/doc'') None =
     Inr (page_response 200 ''OK'')"
    by (simp add: sample_world_def sample_env_def)
  have s: "status_code (page_response 200 ''OK'') = 200"
    by (simp add: page_response_def)
  from check_url_valid_true [OF sample_client_data m, of sample_world] g s
  have "check_url_valid sample_world sample_client ''webpage'' = Inr (JBool True)"
    by blast
  with sample_client_data m g s show ?thesis by simp
qed

text \<open>
  The claim as written has \<^verbatim>\<open>True\<close> only for a 2xx status. A response with status 300
  (not one of the statuses 301, 302, 303, 307 and 308 that \<^verbatim>\<open>requests\<close> follows as
  redirects) passes \<^verbatim>\<open>raise_for_status\<close> and is \<^verbatim>\<open>ok\<close>: the method returns \<^verbatim>\<open>True\<close>.
\<close>

theorem check_url_valid_true_counterexample:
  "status_code (page_response 300 ''Multiple Choices'') = 300 \<and>
   check_url_valid (sample_env (Inr (page_response 300 ''Multiple Choices''))) sample_client ''webpage'' =
     Inr (JBool True)"
  by (simp add: check_url_valid_def check_url_valid_try_def sample_client_def sample_doc_def
      sample_env_def page_response_def raise_for_status_def ok_def)

text \<open>
  C3, as amended. For every key present in the document, if the GET that
  \<^verbatim>\<open>check_url_valid\<close> issues against the stored value raises an exception of \<^verbatim>\<open>requests\<close>
  (a connection error, a timeout, too many redirects, any \<^verbatim>\<open>RequestException\<close>) or returns
  a status from 400 to 599, the method raises \<^verbatim>\<open>CriticalException\<close> with the message
  \<^verbatim>\<open>URL <value> not valid: <cause>\<close>, the value being the URL itself when it is a string; and
  the method returns the bool \<^verbatim>\<open>False\<close> in no case at all.
\<close>

theorem check_url_valid_failure:
  assumes "data c = JDict kvs" and "map_of kvs key = Some v"
  shows "(\<forall>e. requests_get w v None = Inl (Requests e) \<longrightarrow>
            check_url_valid w c key =
              Inl (CriticalException (Message
                (''URL '' @ py_format w v @ '' not valid: '' @ str_exc e)))) \<and>
         (\<forall>resp. requests_get w v None = Inr resp \<and>
            400 \<le> status_code resp \<and> status_code resp < 600 \<longrightarrow>
            (\<exists>m. raise_for_status resp = Inl (Requests (HTTPError m)) \<and>
               check_url_valid w c key =
                 Inl (CriticalException (Message
                   (''URL '' @ py_format w v @ '' not valid: '' @ m))))) \<and>
         (\<forall>s. v = JStr s \<longrightarrow> py_format w v = s) \<and>
         check_url_valid w c key \<noteq> Inr (JBool False)"
proof -
  have a: "\<And>e. requests_get w v None = Inl (Requests e) \<Longrightarrow>
            check_url_valid w c key =
              Inl (CriticalException (Message
                (''URL '' @ py_format w v @ '' not valid: '' @ str_exc e)))"
    by (rule check_url_valid_raised [OF assms])
  have b: "\<And>resp. requests_get w v None = Inr resp \<Longrightarrow>
            400 \<le> status_code resp \<Longrightarrow> status_code resp < 600 \<Longrightarrow>
            (\<exists>m. raise_for_status resp = Inl (Requests (HTTPError m)) \<and>
               check_url_valid w c key =
                 Inl (CriticalException (Message
                   (''URL '' @ py_format w v @ '' not valid: '' @ m))))"
    using raise_for_status_error check_url_valid_status_error [OF assms] by blast
  have f: "\<And>s. v = JStr s \<Longrightarrow> py_format w v = s"
    by (simp add: py_format_def)
  have n: "check_url_valid w c key \<noteq> Inr (JBool False)"
  proof (cases "requests_get w v None")
    case (Inl e)
    with check_url_valid_other [OF assms Inl] show ?thesis by auto
  next
    case (Inr resp)
    from raise_for_status_cases [of resp] show ?thesis
    proof
      assume "\<exists>m. raise_for_status resp = Inl (Requests (HTTPError m)) \<and>
        400 \<le> status_code resp \<and> status_code resp < 600"
      then obtain m where "raise_for_status resp = Inl (Requests (HTTPError m))" by blast
      from check_url_valid_status_error [OF assms Inr this] show ?thesis by simp
    next
      assume "raise_for_status resp = Inr () \<and> ok resp \<and>
        \<not> (400 \<le> status_code resp \<and> status_code resp < 600)"
      then have "\<not> (400 \<le> status_code resp \<and> status_code resp < 600)" by blast
      from check_url_valid_status_pass [OF assms Inr this] show ?thesis by simp
    qed
  qed
  from a b f n show ?thesis by blast
qed

theorem check_url_valid_failure_witness:
  "data sample_client = JDict sample_doc \<and>
   map_of sample_doc ''webpage'' = Some (JStr ''https://example.org/doc'') \<and>
   requests_get (sample_env (Inr (page_response 500 ''Internal Server Error'')))
     (JStr ''https://example.org/doc'') None = Inr (page_response 500 ''Internal Server Error'') \<and>
   status_code (page_response 500 ''Internal Server Error'') = 500 \<and>
   check_url_valid (sample_env (Inr (page_response 500 ''Internal Server Error''))) sample_client
     ''webpage'' =
     Inl (CriticalException (Message
       ''URL https://example.org/doc not valid: 500 Server Error: Internal Server Error for url: https://example.org/doc''))"
proof -
  let ?r = "page_response 500 ''Internal Server Error''"
  have m: "map_of sample_doc ''webpage'' = Some (JStr ''https://example.org/doc'')"
    by (simp add: sample_doc_def)
  have g: "requests_get (sample_env (Inr ?r)) (JStr ''https://example.org/doc'') None = Inr ?r"
    by (simp add: sample_env_def)
  have s: "status_code ?r = 500"
    by (simp add: page_response_def)
  have r: "raise_for_status ?r = Inl (Requests (HTTPError
      ''500 Server Error: Internal Server Error for url: https://example.org/doc''))"
    by (simp add: raise_for_status_def page_response_def str_int_def)
  have f: "py_format (sample_env (Inr ?r)) (JStr ''https://example.org/doc'') = ''https://example.org/doc''"
    by (simp add: py_format_def)
  from check_url_valid_failure [OF sample_client_data m, of "sample_env (Inr ?r)"] g s
  obtain m' where "raise_for_status ?r = Inl (Requests (HTTPError m'))"
    and "check_url_valid (sample_env (Inr ?r)) sample_client ''webpage'' =
      Inl (CriticalException (Message
        (''URL '' @ py_format (sample_env (Inr ?r)) (JStr ''https://example.org/doc'') @
         '' not valid: '' @ m')))"
    by force
  with r f have "check_url_valid (sample_env (Inr ?r)) sample_client ''webpage'' =
     Inl (CriticalException (Message
       ''URL https://example.org/doc not valid: 500 Server Error: Internal Server Error for url: https://example.org/doc''))"
    by simp
  with sample_client_data m g s show ?thesis by simp
qed

text \<open>
  The claim as written has the method raise for every status that is not 2xx. A response
  with status 304 is not 2xx; it passes \<^verbatim>\<open>raise_for_status\<close> and the method returns
  \<^verbatim>\<open>True\<close>.
\<close>

theorem check_url_valid_failure_counterexample:
  "\<not> (200 \<le> status_code (page_response 304 ''Not Modified'') \<and>
      status_code (page_response 304 ''Not Modified'') < 300) \<and>
   check_url_valid (sample_env (Inr (page_response 304 ''Not Modified''))) sample_client ''webpage'' =
     Inr (JBool True)"
  by (simp add: check_url_valid_def check_url_valid_try_def sample_client_def sample_doc_def
      sample_env_def page_response_def raise_for_status_def ok_def)

subsection \<open>Construction\<close>

text \<open>
  C4, as amended. For every constructor input, if the catalog fetch raises an exception of
  \<^verbatim>\<open>requests\<close> (a connection failure, a timeout, too many redirects, any
  \<^verbatim>\<open>RequestException\<close> raised in the \<^verbatim>\<open>try\<close> block) or returns a status from 400 to 599
  such as 404, construction raises \<^verbatim>\<open>CriticalException\<close> wrapping that exception and
  yields no client object.
\<close>

theorem init_fetch_failure:
  "(\<forall>e. requests_get w (JStr (fetch_url u cid)) (Some t) = Inl (Requests e) \<longrightarrow>
      init w u cid t = Inl (CriticalException (Wrapped e)) \<and>
      (\<forall>c. init w u cid t \<noteq> Inr c)) \<and>
   (\<forall>resp. requests_get w (JStr (fetch_url u cid)) (Some t) = Inr resp \<and>
      400 \<le> status_code resp \<and> status_code resp < 600 \<longrightarrow>
      (\<exists>m. raise_for_status resp = Inl (Requests (HTTPError m)) \<and>
         init w u cid t = Inl (CriticalException (Wrapped (HTTPError m)))) \<and>
      (\<forall>c. init w u cid t \<noteq> Inr c)) \<and>
   (\<forall>e. get_data_try w u cid t = Inl (Requests e) \<longrightarrow>
      init w u cid t = Inl (CriticalException (Wrapped e)))"
proof -
  have a: "\<And>e. requests_get w (JStr (fetch_url u cid)) (Some t) = Inl (Requests e) \<Longrightarrow>
      init w u cid t = Inl (CriticalException (Wrapped e))"
  proof -
    fix e
    assume "requests_get w (JStr (fetch_url u cid)) (Some t) = Inl (Requests e)"
    then have "get_data_try w u cid t = Inl (Requests e)"
      by (simp add: get_data_try_def)
    then show "init w u cid t = Inl (CriticalException (Wrapped e))"
      by (simp add: get_data_caught init_raises)
  qed
  have b: "\<And>resp. requests_get w (JStr (fetch_url u cid)) (Some t) = Inr resp \<Longrightarrow>
      400 \<le> status_code resp \<Longrightarrow> status_code resp < 600 \<Longrightarrow>
      (\<exists>m. raise_for_status resp = Inl (Requests (HTTPError m)) \<and>
         init w u cid t = Inl (CriticalException (Wrapped (HTTPError m))))"
  proof -
    fix resp
    assume g: "requests_get w (JStr (fetch_url u cid)) (Some t) = Inr resp"
      and "400 \<le> status_code resp" and "status_code resp < 600"
    then obtain m where m: "raise_for_status resp = Inl (Requests (HTTPError m))"
      using raise_for_status_error by blast
    with g have "get_data_try w u cid t = Inl (Requests (HTTPError m))"
      by (simp add: get_data_try_def)
    then have "init w u cid t = Inl (CriticalException (Wrapped (HTTPError m)))"
      by (simp add: get_data_caught init_raises)
    with m show "\<exists>m. raise_for_status resp = Inl (Requests (HTTPError m)) \<and>
         init w u cid t = Inl (CriticalException (Wrapped (HTTPError m)))"
      by blast
  qed
  have c: "\<And>e. get_data_try w u cid t = Inl (Requests e) \<Longrightarrow>
      init w u cid t = Inl (CriticalException (Wrapped e))"
    by (simp add: get_data_caught init_raises)
  show ?thesis
  proof (intro conjI allI impI)
    fix e assume h: "requests_get w (JStr (fetch_url u cid)) (Some t) = Inl (Requests e)"
    from a [OF h] show "init w u cid t = Inl (CriticalException (Wrapped e))" .
    from a [OF h] show "\<And>c. init w u cid t \<noteq> Inr c" by simp
  next
    fix resp
    assume h: "requests_get w (JStr (fetch_url u cid)) (Some t) = Inr resp \<and>
      400 \<le> status_code resp \<and> status_code resp < 600"
    then show "\<exists>m. raise_for_status resp = Inl (Requests (HTTPError m)) \<and>
         init w u cid t = Inl (CriticalException (Wrapped (HTTPError m)))"
      using b by blast
    from h b [of resp] show "\<And>c. init w u cid t \<noteq> Inr c" by auto
  next
    fix e assume "get_data_try w u cid t = Inl (Requests e)"
    from c [OF this] show "init w u cid t = Inl (CriticalException (Wrapped e))" .
  qed
qed

theorem init_fetch_failure_witness:
  "fetch_url ''https://api.example.org/catalog'' ''svc1'' = ''https://api.example.org/catalog/svc1'' \<and>
   requests_get (sample_env (Inr (catalog_response 404 ''Not Found'')))
     (JStr ''https://api.example.org/catalog/svc1'') (Some 30) =
     Inr (catalog_response 404 ''Not Found'') \<and>
   status_code (catalog_response 404 ''Not Found'') = 404 \<and>
   init (sample_env (Inr (catalog_response 404 ''Not Found''))) ''https://api.example.org/catalog''
     ''svc1'' 30 =
     Inl (CriticalException (Wrapped (HTTPError
       ''404 Client Error: Not Found for url: https://api.example.org/catalog/svc1'')))"
proof -
  let ?r = "catalog_response 404 ''Not Found''"
  have u: "fetch_url ''https://api.example.org/catalog'' ''svc1'' = ''https://api.example.org/catalog/svc1''"
    by (simp add: fetch_url_def endswith_def suffix_to_prefix)
  have g: "requests_get (sample_env (Inr ?r)) (JStr ''https://api.example.org/catalog/svc1'') (Some 30) = Inr ?r"
    by (simp add: sample_env_def)
  have s: "status_code ?r = 404"
    by (simp add: catalog_response_def)
  have r: "raise_for_status ?r = Inl (Requests (HTTPError
      ''404 Client Error: Not Found for url: https://api.example.org/catalog/svc1''))"
    by (simp add: raise_for_status_def catalog_response_def str_int_def)
  from init_fetch_failure [of "sample_env (Inr ?r)" "''https://api.example.org/catalog''" "''svc1''" 30]
    u g s
  obtain m where "raise_for_status ?r = Inl (Requests (HTTPError m))"
    and "init (sample_env (Inr ?r)) ''https://api.example.org/catalog'' ''svc1'' 30 =
      Inl (CriticalException (Wrapped (HTTPError m)))"
    by force
  with r have "init (sample_env (Inr ?r)) ''https://api.example.org/catalog'' ''svc1'' 30 =
     Inl (CriticalException (Wrapped (HTTPError
       ''404 Client Error: Not Found for url: https://api.example.org/catalog/svc1'')))"
    by simp
  with u g s show ?thesis by simp
qed

text \<open>
  The claim as written counts every status that is not 2xx as a failed fetch. A response
  with status 300 and a JSON body passes \<^verbatim>\<open>raise_for_status\<close> and is \<^verbatim>\<open>ok\<close>:
  construction succeeds with that body as the document.
\<close>

theorem init_fetch_failure_counterexample:
  "\<not> (200 \<le> status_code (catalog_response 300 ''Multiple Choices'') \<and>
      status_code (catalog_response 300 ''Multiple Choices'') < 300) \<and>
   init (sample_env (Inr (catalog_response 300 ''Multiple Choices'')))
     ''https://api.example.org/catalog'' ''svc1'' 30 =
     Inr \<lparr>url = ''https://api.example.org/catalog'', catalog_id = ''svc1'', timeout = 30,
          data = JDict [(''name'', JStr ''svc'')]\<rparr>"
  by (simp add: init_def get_data_def get_data_try_def sample_env_def catalog_response_def
      raise_for_status_def ok_def)

subsection \<open>Further properties\<close>

text \<open>
  \<^verbatim>\<open>check_url_valid\<close> checks no key: for a key absent from the document the lookup in the
  \<^verbatim>\<open>try\<close> block raises \<^verbatim>\<open>KeyError\<close>, which the \<^verbatim>\<open>except\<close> clause does not catch.
\<close>

theorem check_url_valid_missing_key:
  assumes "data c = JDict kvs" and "map_of kvs key = None"
  shows "check_url_valid w c key = Inl (KeyError key)"
  using assms by (simp add: check_url_valid_def check_url_valid_try_def)

theorem check_url_valid_missing_key_witness:
  "data sample_client = JDict sample_doc \<and>
   map_of sample_doc ''contact'' = None \<and>
   check_url_valid sample_world sample_client ''contact'' = Inl (KeyError ''contact'')"
proof -
  have n: "map_of sample_doc ''contact'' = None"
    by (simp add: sample_doc_def)
  from check_url_valid_missing_key [OF sample_client_data n, of sample_world] sample_client_data n
  show ?thesis by simp
qed

text \<open>
  When the catalog fetch returns a response that \<^verbatim>\<open>raise_for_status\<close> passes and whose body
  decodes, construction succeeds: the client holds the constructor's arguments and the
  decoded body as its document.
\<close>

theorem init_stores_document:
  assumes "requests_get w (JStr (fetch_url u cid)) (Some t) = Inr resp"
    and "\<not> (400 \<le> status_code resp \<and> status_code resp < 600)"
    and "json_body resp = Inr d"
  shows "init w u cid t = Inr \<lparr>url = u, catalog_id = cid, timeout = t, data = d\<rparr>"
  using assms raise_for_status_pass [of resp]
  by (simp add: init_def get_data_def get_data_try_def)

theorem init_stores_document_witness:
  "requests_get (sample_env (Inr (catalog_response 200 ''OK'')))
     (JStr (fetch_url ''https://api.example.org/catalog/'' ''svc1'')) (Some 30) =
     Inr (catalog_response 200 ''OK'') \<and>
   \<not> (400 \<le> status_code (catalog_response 200 ''OK'') \<and>
      status_code (catalog_response 200 ''OK'') < 600) \<and>
   json_body (catalog_response 200 ''OK'') = Inr (JDict [(''name'', JStr ''svc'')]) \<and>
   init (sample_env (Inr (catalog_response 200 ''OK''))) ''https://api.example.org/catalog/'' ''svc1'' 30 =
     Inr \<lparr>url = ''https://api.example.org/catalog/'', catalog_id = ''svc1'', timeout = 30,
          data = JDict [(''name'', JStr ''svc'')]\<rparr>"
proof -
  let ?r = "catalog_response 200 ''OK''"
  have g: "requests_get (sample_env (Inr ?r))
     (JStr (fetch_url ''https://api.example.org/catalog/'' ''svc1'')) (Some 30) = Inr ?r"
    by (simp add: sample_env_def)
  have s: "\<not> (400 \<le> status_code ?r \<and> status_code ?r < 600)"
    by (simp add: catalog_response_def)
  have j: "json_body ?r = Inr (JDict [(''name'', JStr ''svc'')])"
    by (simp add: catalog_response_def)
  from init_stores_document [OF g s j] g s j show ?thesis by simp
qed

end
